theory Spec2Isabelle
  imports Complex_Main
begin

section \<open>Data model of the RAG pipeline (rag\_pipeline.py)\<close>

text \<open>
  Python strings are modelled as \<open>string\<close>; one element of the list stands for one
  character as Python's \<open>len\<close> counts it. Python floats are modelled as \<open>real\<close>: the
  pipeline only compares them and returns literals, it does no float arithmetic.
  A metadata dictionary is a map from keys to values; the values the pipeline stores
  are strings and integers.
\<close>

datatype meta_value = MStr string | MInt int

record document =
  page_content :: string
  metadata :: "string \<rightharpoonup> meta_value"

text \<open>The dataclass \<open>RAGConfig\<close> with its twelve fields.\<close>

record RAGConfig =
  openai_api_key :: string
  embedding_model :: string
  llm_model :: string
  temperature :: real
  chroma_persist_directory :: string
  collection_name :: string
  chunk_size :: int
  chunk_overlap :: int
  top_k_results :: int
  similarity_threshold :: real
  max_history_length :: int
  max_tokens :: int

text \<open>\<open>RAGConfig()\<close>: every field at its default; the API key is read from the environment.\<close>

definition RAGConfig_default :: "string \<Rightarrow> RAGConfig" where
  "RAGConfig_default env_key =
     \<lparr>openai_api_key = env_key,
      embedding_model = ''text-embedding-3-small'',
      llm_model = ''gpt-4-turbo-preview'',
      temperature = 1 / 10,
      chroma_persist_directory = ''./chroma_db'',
      collection_name = ''qa_knowledge_base'',
      chunk_size = 1000,
      chunk_overlap = 200,
      top_k_results = 3,
      similarity_threshold = 7 / 10,
      max_history_length = 5,
      max_tokens = 8000\<rparr>"

text \<open>Python exceptions, each with the text \<open>str(e)\<close> gives.\<close>

datatype error =
  AttributeError string
  | KeyError string
  | ExternalServiceError string

fun str_error :: "error \<Rightarrow> string" where
  "str_error (AttributeError m) = m"
| "str_error (KeyError m) = m"
| "str_error (ExternalServiceError m) = m"

text \<open>
  Reading an attribute of \<open>None\<close> raises \<open>AttributeError\<close> with Python's message
  \<^verbatim>\<open>'NoneType' object has no attribute 'name'\<close>.
\<close>

definition none_attribute_error :: "string \<Rightarrow> error" where
  "none_attribute_error name =
     AttributeError
       (CHR 0x27 # ''NoneType'' @ CHR 0x27 # '' object has no attribute '' @
        CHR 0x27 # name @ [CHR 0x27])"

section \<open>Confidence scoring\<close>

text \<open>
  \<open>RAGPipeline._calculate_confidence\<close>: \<open>not source_docs\<close> is true exactly for the empty
  list; otherwise the branches test \<open>len(source_docs)\<close>.
\<close>

definition calculate_confidence :: "'a list \<Rightarrow> real" where
  "calculate_confidence source_docs =
     (if source_docs = [] then 0
      else (let num_sources = int (length source_docs)
            in if num_sources \<ge> 3 then 9 / 10
               else if num_sources = 2 then 7 / 10
               else 5 / 10))"

section \<open>Chunking\<close>

text \<open>
  \<open>DocumentProcessor.__init__\<close> builds a \<open>RecursiveCharacterTextSplitter\<close> from the
  configuration: \<open>chunk_size\<close>, \<open>chunk_overlap\<close>, \<open>length_function=len\<close> and the five
  separators. The splitter is a class of the langchain library, not of this repository:
  the record holds what the constructor is given, and its method \<open>split_text\<close> is a
  parameter \<open>split_text\<close> of the model, a function of the splitter's settings and the text.
  The tokenizer of the processor is used by the loader only and is left out.
\<close>

record RecursiveCharacterTextSplitter =
  splitter_chunk_size :: int
  splitter_chunk_overlap :: int
  splitter_separators :: "string list"

record DocumentProcessor =
  dp_config :: RAGConfig
  text_splitter :: RecursiveCharacterTextSplitter

definition DocumentProcessor_init :: "RAGConfig \<Rightarrow> DocumentProcessor" where
  "DocumentProcessor_init config =
     \<lparr>dp_config = config,
      text_splitter =
        \<lparr>splitter_chunk_size = chunk_size config,
         splitter_chunk_overlap = chunk_overlap config,
         splitter_separators = [[CHR 0x0A, CHR 0x0A], [CHR 0x0A], ''. '', '' '', []]\<rparr>\<rparr>"

text \<open>
  \<open>DocumentProcessor.chunk_documents\<close>. The inner loop runs over \<open>enumerate(chunks)\<close> and
  appends one document per chunk (\<open>chunked_doc\<close>); its metadata is the dictionary
  \<open>{**doc.metadata, 'chunk_index': i, 'total_chunks': len(chunks)}\<close>, where the two later
  keys replace equal keys of \<open>doc.metadata\<close>. The outer loop runs over the documents.
\<close>

definition chunked_doc :: "document \<Rightarrow> string list \<Rightarrow> nat \<Rightarrow> string \<Rightarrow> document" where
  "chunked_doc doc chunks i chunk =
     \<lparr>page_content = chunk,
      metadata = (metadata doc)
        (''chunk_index'' \<mapsto> MInt (int i),
         ''total_chunks'' \<mapsto> MInt (int (length chunks)))\<rparr>"

fun chunks_loop ::
  "document \<Rightarrow> string list \<Rightarrow> (nat \<times> string) list \<Rightarrow> document list \<Rightarrow> document list" where
  "chunks_loop doc chunks [] chunked_docs = chunked_docs"
| "chunks_loop doc chunks ((i, chunk) # rest) chunked_docs =
     chunks_loop doc chunks rest (chunked_docs @ [chunked_doc doc chunks i chunk])"

fun documents_loop ::
  "(RecursiveCharacterTextSplitter \<Rightarrow> string \<Rightarrow> string list) \<Rightarrow> DocumentProcessor \<Rightarrow>
   document list \<Rightarrow> document list \<Rightarrow> document list" where
  "documents_loop split_text self [] chunked_docs = chunked_docs"
| "documents_loop split_text self (doc # rest) chunked_docs =
     (let chunks = split_text (text_splitter self) (page_content doc)
      in documents_loop split_text self rest
           (chunks_loop doc chunks (enumerate 0 chunks) chunked_docs))"

definition chunk_documents ::
  "(RecursiveCharacterTextSplitter \<Rightarrow> string \<Rightarrow> string list) \<Rightarrow> DocumentProcessor \<Rightarrow>
   document list \<Rightarrow> document list" where
  "chunk_documents split_text self documents = documents_loop split_text self documents []"

text \<open>
  A small splitter on which the model can be run: a text shorter than \<open>chunk_size\<close> stays
  whole, a longer one is cut into its characters (the last separator of the list, the
  empty string, cuts between characters). The theorems below hold for every splitter;
  this one only supplies concrete runs.
\<close>

definition char_split_text :: "RecursiveCharacterTextSplitter \<Rightarrow> string \<Rightarrow> string list" where
  "char_split_text ts text =
     (if int (length text) < splitter_chunk_size ts then [text] else map (\<lambda>c. [c]) text)"

text \<open>
  The library's splitter on a short text. \<open>RecursiveCharacterTextSplitter.split_text\<close> is
  langchain's and is not part of the sources. For a text shorter than \<open>chunk_size\<close> every
  piece it cuts at a separator is shorter than \<open>chunk_size\<close> too, so the pieces are
  merged back into one chunk, the text itself; the library then strips the white space
  around the chunk (\<open>str.strip\<close>) and drops a chunk that is empty after that. What
  it does with a longer text is the parameter \<open>long_split\<close>.
\<close>

definition is_whitespace :: "char \<Rightarrow> bool" where
  "is_whitespace c \<longleftrightarrow>
     c \<in> set [CHR 0x09, CHR 0x0A, CHR 0x0B, CHR 0x0C, CHR 0x0D, CHR 0x1C, CHR 0x1D,
              CHR 0x1E, CHR 0x1F, CHR 0x20, CHR 0x85, CHR 0xA0]"

definition py_strip :: "string \<Rightarrow> string" where
  "py_strip text = rev (dropWhile is_whitespace (rev (dropWhile is_whitespace text)))"

definition library_split_text ::
  "(RecursiveCharacterTextSplitter \<Rightarrow> string \<Rightarrow> string list) \<Rightarrow>
   RecursiveCharacterTextSplitter \<Rightarrow> string \<Rightarrow> string list" where
  "library_split_text long_split ts text =
     (if int (length text) < splitter_chunk_size ts
      then (if py_strip text = [] then [] else [py_strip text])
      else long_split ts text)"

section \<open>Vector store\<close>

text \<open>
  The Chroma store is langchain's; the model keeps the documents of its collection. Its
  constructor and its search are calls into the library: \<open>load_vectorstore\<close> is given
  what \<open>Chroma(...)\<close> returns or raises for the configured directory, and
  \<open>similarity_search\<close> is given the method \<open>similarity_search_with_score\<close> as a function.
  The embeddings object and the Chroma client of \<open>VectorStore.__init__\<close> are handles to
  external services and are left out; \<open>vectorstore\<close> starts as \<open>None\<close>.
\<close>

record Chroma =
  collection :: "document list"

record VectorStore =
  vs_config :: RAGConfig
  vectorstore :: "Chroma option"

definition VectorStore_init :: "RAGConfig \<Rightarrow> VectorStore" where
  "VectorStore_init config = \<lparr>vs_config = config, vectorstore = None\<rparr>"

definition load_vectorstore :: "error + Chroma \<Rightarrow> VectorStore \<Rightarrow> error + VectorStore" where
  "load_vectorstore opened self =
     (case opened of
        Inl e \<Rightarrow> Inl e
      | Inr store \<Rightarrow> Inr (self\<lparr>vectorstore := Some store\<rparr>))"

text \<open>\<open>k or self.config.top_k_results\<close>: \<open>None\<close> and \<open>0\<close> are false.\<close>

definition k_or_default :: "int option \<Rightarrow> int \<Rightarrow> int" where
  "k_or_default k top_k = (case k of None \<Rightarrow> top_k | Some n \<Rightarrow> if n = 0 then top_k else n)"

text \<open>
  \<open>VectorStore.similarity_search\<close>. Calling a method of \<open>self.vectorstore\<close> while it is
  \<open>None\<close> raises \<open>AttributeError\<close>; an exception of the library's search is passed on.
\<close>

definition similarity_search ::
  "(Chroma \<Rightarrow> string \<Rightarrow> int \<Rightarrow> error + (document \<times> real) list) \<Rightarrow>
   VectorStore \<Rightarrow> string \<Rightarrow> int option \<Rightarrow> error + (document \<times> real) list" where
  "similarity_search similarity_search_with_score self query k =
     (let k' = k_or_default k (top_k_results (vs_config self))
      in case vectorstore self of
           None \<Rightarrow>
             Inl (none_attribute_error ''similarity_search_with_score'')
         | Some store \<Rightarrow>
             (case similarity_search_with_score store query k' of
                Inl e \<Rightarrow> Inl e
              | Inr results \<Rightarrow>
                  Inr (filter (\<lambda>(doc, score). score \<ge> similarity_threshold (vs_config self))
                         results)))"

section \<open>Pipeline and conversation memory\<close>

text \<open>
  \<open>ConversationBufferMemory\<close> is langchain's buffer memory: it keeps every message it is
  given, and \<open>save_context\<close> appends the question and the answer of a call. The model
  keeps the three constructor arguments and the buffer, one pair (question, answer) per
  turn, oldest first.
\<close>

record ConversationBufferMemory =
  memory_key :: string
  return_messages :: bool
  output_key :: string
  chat_memory :: "(string \<times> string) list"

definition save_context ::
  "ConversationBufferMemory \<Rightarrow> string \<Rightarrow> string \<Rightarrow> ConversationBufferMemory" where
  "save_context memory question answer =
     memory\<lparr>chat_memory := chat_memory memory @ [(question, answer)]\<rparr>"

record RAGPipeline =
  config :: RAGConfig
  vector_store :: VectorStore
  conversation_memory :: "string \<rightharpoonup> ConversationBufferMemory"

definition RAGPipeline_init :: "RAGConfig \<Rightarrow> RAGPipeline" where
  "RAGPipeline_init cfg =
     \<lparr>config = cfg, vector_store = VectorStore_init cfg, conversation_memory = Map.empty\<rparr>"

definition load_existing :: "error + Chroma \<Rightarrow> RAGPipeline \<Rightarrow> error + RAGPipeline" where
  "load_existing opened self =
     (case load_vectorstore opened (vector_store self) of
        Inl e \<Rightarrow> Inl e
      | Inr vs \<Rightarrow> Inr (self\<lparr>vector_store := vs\<rparr>))"

definition get_or_create_memory ::
  "RAGPipeline \<Rightarrow> string \<Rightarrow> ConversationBufferMemory \<times> RAGPipeline" where
  "get_or_create_memory self session_id =
     (case conversation_memory self session_id of
        None \<Rightarrow>
          (let memory = \<lparr>memory_key = ''chat_history'', return_messages = True,
                          output_key = ''answer'', chat_memory = []\<rparr>
           in (memory,
               self\<lparr>conversation_memory := (conversation_memory self)(session_id \<mapsto> memory)\<rparr>))
      | Some memory \<Rightarrow> (memory, self))"

text \<open>
  The conversational retrieval chain is langchain's. It is a parameter of the model: a
  function of the store and \<open>k\<close> of the retriever, the history it reads from its memory
  (\<open>None\<close> when it is built with \<open>memory=None\<close>) and the question, which returns the
  result dictionary or raises. \<open>qa_chain_call\<close> is the call \<open>qa_chain({"question": ...})\<close>:
  after a successful run the chain saves the turn into its memory, if it has one.
\<close>

record chain_result =
  answer :: string
  source_documents :: "document list option"

type_synonym qa_chain =
  "Chroma \<Rightarrow> int \<Rightarrow> (string \<times> string) list option \<Rightarrow> string \<Rightarrow> error + chain_result"

definition qa_chain_call ::
  "qa_chain \<Rightarrow> Chroma \<Rightarrow> int \<Rightarrow> ConversationBufferMemory option \<Rightarrow> string \<Rightarrow>
   error + chain_result \<times> ConversationBufferMemory option" where
  "qa_chain_call chain store k memory question =
     (case chain store k (map_option chat_memory memory) question of
        Inl e \<Rightarrow> Inl e
      | Inr result \<Rightarrow>
          Inr (result, map_option (\<lambda>m. save_context m question (answer result)) memory))"

record source_info =
  content :: string
  source :: meta_value
  file_name :: meta_value

definition format_source :: "document \<Rightarrow> source_info" where
  "format_source doc =
     \<lparr>content = take 200 (page_content doc) @ ''...'',
      source = (case metadata doc ''source'' of None \<Rightarrow> MStr ''Unknown'' | Some v \<Rightarrow> v),
      file_name = (case metadata doc ''file_name'' of None \<Rightarrow> MStr ''Unknown'' | Some v \<Rightarrow> v)\<rparr>"

record query_result =
  result_answer :: string
  result_sources :: "source_info list"
  result_confidence :: real
  result_session_id :: "string option"

text \<open>
  \<open>RAGPipeline.query\<close>, returning the result or the exception together with the pipeline
  as the call leaves it. \<open>if session_id:\<close> is false for \<open>None\<close> and for the empty string.
  The memory object handed to the chain is the one stored in \<open>conversation_memory\<close>, so
  what the chain saves into it is seen under the session's key.
\<close>

definition query ::
  "qa_chain \<Rightarrow> RAGPipeline \<Rightarrow> string \<Rightarrow> string option \<Rightarrow>
   (error + query_result) \<times> RAGPipeline" where
  "query chain self question session_id =
     (let sid = (case session_id of
                   None \<Rightarrow> None
                 | Some s \<Rightarrow> if s = [] then None else Some s);
          (memory, self1) =
            (case sid of
               None \<Rightarrow> (None, self)
             | Some s \<Rightarrow> (let (m, p) = get_or_create_memory self s in (Some m, p)))
      in case vectorstore (vector_store self1) of
           None \<Rightarrow> (Inl (none_attribute_error ''as_retriever''), self1)
         | Some store \<Rightarrow>
             (case qa_chain_call chain store (top_k_results (config self1)) memory question of
                Inl e \<Rightarrow> (Inl e, self1)
              | Inr (result, memory') \<Rightarrow>
                  (let self2 =
                         (case (sid, memory') of
                            (Some s, Some m) \<Rightarrow>
                              self1\<lparr>conversation_memory := (conversation_memory self1)(s \<mapsto> m)\<rparr>
                          | _ \<Rightarrow> self1);
                       docs = (case source_documents result of None \<Rightarrow> [] | Some ds \<Rightarrow> ds);
                       sources = map format_source docs;
                       confidence = calculate_confidence docs
                   in (Inr \<lparr>result_answer = answer result,
                             result_sources = sources,
                             result_confidence = confidence,
                             result_session_id = session_id\<rparr>,
                       self2))))"

text \<open>
  \<open>del d[k]\<close> raises \<open>KeyError\<close> for a missing key; \<open>RAGPipeline.clear_session\<close> deletes
  only after the membership test.
\<close>

definition dict_del :: "(string \<rightharpoonup> 'v) \<Rightarrow> string \<Rightarrow> error + (string \<rightharpoonup> 'v)" where
  "dict_del d k = (case d k of None \<Rightarrow> Inl (KeyError k) | Some _ \<Rightarrow> Inr (d(k := None)))"

definition clear_session :: "RAGPipeline \<Rightarrow> string \<Rightarrow> error + RAGPipeline" where
  "clear_session self session_id =
     (if session_id \<in> dom (conversation_memory self)
      then (case dict_del (conversation_memory self) session_id of
              Inl e \<Rightarrow> Inl e
            | Inr d \<Rightarrow> Inr (self\<lparr>conversation_memory := d\<rparr>))
      else Inr self)"

section \<open>REST API (api.py)\<close>

text \<open>
  The request model \<open>QueryRequest\<close>: \<open>question\<close> is declared with
  \<open>Field(..., min_length=1, max_length=1000)\<close>. The framework validates the body of a
  request against the model of the handler's parameter before it calls the handler; a
  body that fails is answered with the validation error and the handler does not run
  (\<open>post_query\<close>).
\<close>

record QueryRequest =
  question :: string
  session_id :: "string option"
  include_sources :: bool

datatype http_error =
  HTTPException int string
  | RequestValidationError string

definition QueryRequest_validate :: "QueryRequest \<Rightarrow> http_error + QueryRequest" where
  "QueryRequest_validate request =
     (if length (question request) < 1
      then Inl (RequestValidationError ''question: min_length 1'')
      else if length (question request) > 1000
      then Inl (RequestValidationError ''question: max_length 1000'')
      else Inr request)"

record QueryResponse =
  response_answer :: string
  response_sources :: "source_info list"
  response_confidence :: real
  response_session_id :: "string option"
  timestamp :: string

text \<open>
  \<open>startup_event\<close>: the pipeline is built from the default configuration and
  \<open>load_existing\<close> is tried; when that raises, the exception is logged and the pipeline
  stays without a store. The constructors of the pipeline build the clients of the
  external services; \<open>construction\<close> is the exception they raise, if any: the handler
  logs it and raises it again, and the global \<open>rag_pipeline\<close> stays \<open>None\<close>.
\<close>

definition startup_event ::
  "string \<Rightarrow> error option \<Rightarrow> error + Chroma \<Rightarrow> error + RAGPipeline option" where
  "startup_event env_key construction opened =
     (case construction of
        Some e \<Rightarrow> Inl e
      | None \<Rightarrow>
          (let rag_pipeline = RAGPipeline_init (RAGConfig_default env_key)
           in case load_existing opened rag_pipeline of
                Inl e \<Rightarrow> Inr (Some rag_pipeline)
              | Inr loaded \<Rightarrow> Inr (Some loaded)))"

text \<open>
  The handler \<open>query_knowledge_base\<close>, with the global \<open>rag_pipeline\<close> passed in and
  returned, and the time of the response as \<open>now\<close>. \<open>not rag_pipeline\<close> and
  \<open>not rag_pipeline.vector_store.vectorstore\<close> test for \<open>None\<close>: the two classes define
  no truth value of their own, so every object of them is true. Any exception of the
  pipeline's query becomes the response 500.
\<close>

definition query_knowledge_base ::
  "qa_chain \<Rightarrow> string \<Rightarrow> RAGPipeline option \<Rightarrow> QueryRequest \<Rightarrow>
   (http_error + QueryResponse) \<times> RAGPipeline option" where
  "query_knowledge_base chain now rag_pipeline request =
     (case rag_pipeline of
        None \<Rightarrow> (Inl (HTTPException 503 ''RAG pipeline not initialized''), None)
      | Some pipeline \<Rightarrow>
          (case vectorstore (vector_store pipeline) of
             None \<Rightarrow>
               (Inl (HTTPException 503
                  ''Vector store not ready. Please ingest documents first.''),
                Some pipeline)
           | Some _ \<Rightarrow>
               (case query chain pipeline (question request) (session_id request) of
                  (Inl e, pipeline') \<Rightarrow>
                    (Inl (HTTPException 500 (''Query processing failed: '' @ str_error e)),
                     Some pipeline')
                | (Inr result, pipeline') \<Rightarrow>
                    (Inr \<lparr>response_answer = result_answer result,
                          response_sources =
                            (if include_sources request then result_sources result else []),
                          response_confidence = result_confidence result,
                          response_session_id = result_session_id result,
                          timestamp = now\<rparr>,
                     Some pipeline'))))"

definition post_query ::
  "qa_chain \<Rightarrow> string \<Rightarrow> RAGPipeline option \<Rightarrow> QueryRequest \<Rightarrow>
   (http_error + QueryResponse) \<times> RAGPipeline option" where
  "post_query chain now rag_pipeline body =
     (case QueryRequest_validate body of
        Inl e \<Rightarrow> (Inl e, rag_pipeline)
      | Inr request \<Rightarrow> query_knowledge_base chain now rag_pipeline request)"

section \<open>Concrete runs\<close>

text \<open>
  The loop of the example at the end of rag\_pipeline.py: one query after the other on
  the same pipeline and session.
\<close>

fun query_all :: "qa_chain \<Rightarrow> RAGPipeline \<Rightarrow> string option \<Rightarrow> string list \<Rightarrow> RAGPipeline" where
  "query_all chain self sid [] = self"
| "query_all chain self sid (q # questions) =
     query_all chain (snd (query chain self q sid)) sid questions"

text \<open>
  A chain on which the model can be run: it returns the first \<open>k\<close> documents of the
  collection as sources and a fixed form of answer. The general theorems hold for every
  chain; this one supplies the concrete runs.
\<close>

definition first_k_chain :: qa_chain where
  "first_k_chain store k history q =
     Inr \<lparr>answer = ''answer to '' @ q,
          source_documents = Some (take (nat k) (collection store))\<rparr>"

text \<open>The turns stored for a session, oldest first; none for a session that does not exist.\<close>

definition session_history :: "RAGPipeline \<Rightarrow> string \<Rightarrow> (string \<times> string) list" where
  "session_history self sid =
     (case conversation_memory self sid of None \<Rightarrow> [] | Some memory \<Rightarrow> chat_memory memory)"

section \<open>Properties\<close>

lemma calculate_confidence_length:
  "calculate_confidence ds =
     (if length ds = 0 then 0 else if length ds = 1 then 1 / 2
      else if length ds = 2 then 7 / 10 else 9 / 10)"
proof (cases ds)
  case Nil
  then show ?thesis by (simp add: calculate_confidence_def)
next
  case outer: (Cons a as)
  show ?thesis
  proof (cases as)
    case Nil
    with outer show ?thesis by (simp add: calculate_confidence_def)
  next
    case mid: (Cons b bs)
    show ?thesis
    proof (cases bs)
      case Nil
      with outer mid show ?thesis by (simp add: calculate_confidence_def)
    next
      case (Cons c cs)
      with outer mid show ?thesis by (simp add: calculate_confidence_def)
    qed
  qed
qed

lemma calculate_confidence_same_length:
  "length xs = length ys \<Longrightarrow> calculate_confidence xs = calculate_confidence ys"
  by (simp add: calculate_confidence_length)

lemma query_confidence:
  assumes "fst (query chain self q sid) = Inr r"
  shows "result_confidence r = calculate_confidence (result_sources r)"
proof -
  have same: "calculate_confidence (map format_source ds) = calculate_confidence ds" for ds
    by (rule calculate_confidence_same_length) simp
  have nil: "calculate_confidence ([] :: document list) =
      calculate_confidence ([] :: source_info list)"
    by (simp add: calculate_confidence_def)
  from assms show ?thesis
    by (auto simp: query_def Let_def split_def same nil split: option.splits sum.splits)
qed

text \<open>
  Claim C1. The confidence is a function of the number of source documents only:
  no document gives 0.0, one gives 0.5, two give 0.7, three or more give 0.9. So two
  lists of the same length get the same confidence whatever they hold, the value lies
  in [0, 1], and it grows strictly with the count up to three. The confidence of a
  query's result is this value for the sources of the result.
\<close>

theorem confidence_by_count:
  "calculate_confidence ds =
     (if length ds = 0 then 0 else if length ds = 1 then 1 / 2
      else if length ds = 2 then 7 / 10 else 9 / 10)
   \<and> (length ds = length es \<longrightarrow> calculate_confidence ds = calculate_confidence es)
   \<and> calculate_confidence (map f ds) = calculate_confidence ds
   \<and> 0 \<le> calculate_confidence ds \<and> calculate_confidence ds \<le> 1
   \<and> (length ds < length es \<and> length es \<le> 3 \<longrightarrow>
        calculate_confidence ds < calculate_confidence es)
   \<and> (fst (query chain self q sid) = Inr r \<longrightarrow>
        result_confidence r = calculate_confidence (result_sources r))"
proof -
  have in_query: "fst (query chain self q sid) = Inr r \<longrightarrow>
      result_confidence r = calculate_confidence (result_sources r)"
    using query_confidence by blast
  have same: "length ds = length es \<longrightarrow> calculate_confidence ds = calculate_confidence es"
  proof
    assume "length ds = length es"
    then show "calculate_confidence ds = calculate_confidence es"
      by (rule calculate_confidence_same_length)
  qed
  have content: "calculate_confidence (map f ds) = calculate_confidence ds"
    by (rule calculate_confidence_same_length) simp
  have mono: "length ds < length es \<and> length es \<le> 3 \<longrightarrow>
      calculate_confidence ds < calculate_confidence es"
  proof
    assume h: "length ds < length es \<and> length es \<le> 3"
    define m where "m = length ds"
    define n where "n = length es"
    have "m < n" "n \<le> 3" using h by (simp_all add: m_def n_def)
    then have "(m = 0 \<and> n = 1) \<or> (m = 0 \<and> n = 2) \<or> (m = 0 \<and> n = 3)
        \<or> (m = 1 \<and> n = 2) \<or> (m = 1 \<and> n = 3) \<or> (m = 2 \<and> n = 3)"
      by arith
    then show "calculate_confidence ds < calculate_confidence es"
      unfolding calculate_confidence_length [of ds] calculate_confidence_length [of es]
        m_def [symmetric] n_def [symmetric]
      by (elim disjE conjE) simp_all
  qed
  have range: "0 \<le> calculate_confidence ds \<and> calculate_confidence ds \<le> 1"
    by (simp add: calculate_confidence_length)
  have r0: "0 \<le> calculate_confidence ds" and r1: "calculate_confidence ds \<le> 1"
    using range by simp_all
  show ?thesis
    by (intro conjI) (fact calculate_confidence_length, fact same, fact content, fact r0,
        fact r1, fact mono, fact in_query)
qed

theorem confidence_by_count_witness:
  "calculate_confidence ([] :: string list) = 0
   \<and> calculate_confidence [''a''] = 1 / 2
   \<and> calculate_confidence [''a'', ''b''] = 7 / 10
   \<and> calculate_confidence [''a'', ''b'', ''c''] = 9 / 10
   \<and> calculate_confidence [''a'', ''b'', ''c'', ''d''] = 9 / 10
   \<and> calculate_confidence [''a'', ''b''] = calculate_confidence [''x'', ''y'']
   \<and> calculate_confidence [''a''] < calculate_confidence [''x'', ''y'']"
proof -
  let ?p = "RAGPipeline_init (RAGConfig_default ''key'')"
  let ?r = "\<lparr>result_answer = ''a'', result_sources = [], result_confidence = 0,
    result_session_id = None\<rparr>"
  note c0 = confidence_by_count [of "[] :: string list" "[] :: string list" id first_k_chain ?p "''q''" None ?r]
  note c1 = confidence_by_count [of "[''a'']" "[''x'', ''y'']" id first_k_chain ?p "''q''" None ?r]
  note c2 = confidence_by_count [of "[''a'', ''b'']" "[''x'', ''y'']" id first_k_chain ?p "''q''" None ?r]
  note c3 = confidence_by_count [of "[''a'', ''b'', ''c'']" "[] :: string list" id first_k_chain ?p "''q''" None ?r]
  note c4 = confidence_by_count [of "[''a'', ''b'', ''c'', ''d'']" "[] :: string list" id first_k_chain ?p "''q''" None ?r]
  have "calculate_confidence ([] :: string list) = 0" using c0 by simp
  moreover have "calculate_confidence [''a''] = 1 / 2" using c1 by simp
  moreover have "calculate_confidence [''a'', ''b''] = 7 / 10" using c2 by simp
  moreover have "calculate_confidence [''a'', ''b'', ''c''] = 9 / 10" using c3 by simp
  moreover have "calculate_confidence [''a'', ''b'', ''c'', ''d''] = 9 / 10" using c4 by simp
  moreover have "calculate_confidence [''a'', ''b''] = calculate_confidence [''x'', ''y'']"
    using c2 by simp
  moreover have "calculate_confidence [''a''] < calculate_confidence [''x'', ''y'']"
    using c1 by simp
  ultimately show ?thesis by simp
qed

subsection \<open>The chunker\<close>

lemma chunks_loop_append:
  "chunks_loop doc chunks ps acc = acc @ chunks_loop doc chunks ps []"
proof (induction ps arbitrary: acc)
  case Nil
  show ?case by simp
next
  case (Cons p ps)
  obtain i c where p: "p = (i, c)" by (cases p)
  show ?case
    unfolding p chunks_loop.simps
    by (subst Cons.IH, subst (2) Cons.IH) simp
qed

lemma chunks_loop_length: "length (chunks_loop doc chunks ps acc) = length acc + length ps"
  by (induction doc chunks ps acc rule: chunks_loop.induct) simp_all

lemma chunks_loop_nth:
  "j < length ps \<Longrightarrow>
   chunks_loop doc chunks ps acc ! (length acc + j) =
     chunked_doc doc chunks (fst (ps ! j)) (snd (ps ! j))"
proof (induction doc chunks ps acc arbitrary: j rule: chunks_loop.induct)
  case (1 doc chunks chunked_docs)
  then show ?case by simp
next
  case (2 doc chunks i chunk rest chunked_docs)
  show ?case
  proof (cases j)
    case 0
    have "chunks_loop doc chunks ((i, chunk) # rest) chunked_docs ! length chunked_docs =
        (chunked_docs @ [chunked_doc doc chunks i chunk]) ! length chunked_docs"
      unfolding chunks_loop.simps
      by (subst chunks_loop_append) (simp add: nth_append)
    with 0 show ?thesis by simp
  next
    case (Suc j')
    with "2.prems" have "j' < length rest" by simp
    from "2.IH" [OF this] Suc show ?thesis by simp
  qed
qed

lemma documents_loop_append:
  "documents_loop split_text self docs acc = acc @ documents_loop split_text self docs []"
proof (induction docs arbitrary: acc)
  case Nil
  show ?case by simp
next
  case (Cons d docs)
  show ?case
    unfolding documents_loop.simps Let_def
    by (subst Cons.IH, subst (2) Cons.IH, subst chunks_loop_append) simp
qed

lemma chunk_documents_Nil: "chunk_documents split_text self [] = []"
  by (simp add: chunk_documents_def)

lemma chunk_documents_Cons:
  "chunk_documents split_text self (d # ds) =
     chunk_documents split_text self [d] @ chunk_documents split_text self ds"
  unfolding chunk_documents_def documents_loop.simps Let_def
  by (subst documents_loop_append) simp

lemma chunk_documents_append:
  "chunk_documents split_text self (ds @ es) =
     chunk_documents split_text self ds @ chunk_documents split_text self es"
proof (induction ds)
  case Nil
  show ?case by (simp add: chunk_documents_Nil)
next
  case (Cons d ds)
  have "chunk_documents split_text self ((d # ds) @ es) =
      chunk_documents split_text self [d] @ chunk_documents split_text self (ds @ es)"
    using chunk_documents_Cons [of split_text self d "ds @ es"] by simp
  also have "\<dots> = chunk_documents split_text self [d] @
      (chunk_documents split_text self ds @ chunk_documents split_text self es)"
    by (simp only: Cons.IH)
  also have "\<dots> = chunk_documents split_text self (d # ds) @ chunk_documents split_text self es"
    using chunk_documents_Cons [of split_text self d ds] by simp
  finally show ?case .
qed

lemma chunk_documents_single:
  "chunk_documents split_text self [doc] =
     chunks_loop doc (split_text (text_splitter self) (page_content doc))
       (enumerate 0 (split_text (text_splitter self) (page_content doc))) []"
  by (simp add: chunk_documents_def Let_def)

lemma chunk_documents_single_length:
  "length (chunk_documents split_text self [doc]) =
     length (split_text (text_splitter self) (page_content doc))"
  by (simp add: chunk_documents_single chunks_loop_length)

lemma chunk_documents_single_nth:
  assumes "i < length (split_text (text_splitter self) (page_content doc))"
  shows "chunk_documents split_text self [doc] ! i =
     chunked_doc doc (split_text (text_splitter self) (page_content doc)) i
       (split_text (text_splitter self) (page_content doc) ! i)"
proof -
  let ?chunks = "split_text (text_splitter self) (page_content doc)"
  have "i < length (enumerate 0 ?chunks)" using assms by simp
  from chunks_loop_nth [OF this, of doc ?chunks "[]"] assms
  show ?thesis by (simp add: chunk_documents_single nth_enumerate_eq)
qed

lemma documents_loop_splitter_only:
  "text_splitter s1 = text_splitter s2 \<Longrightarrow>
   documents_loop split_text s1 docs acc = documents_loop split_text s2 docs acc"
  by (induction docs arbitrary: acc) (simp_all add: Let_def)

lemma chunk_documents_splitter_only:
  "text_splitter s1 = text_splitter s2 \<Longrightarrow>
   chunk_documents split_text s1 docs = chunk_documents split_text s2 docs"
  unfolding chunk_documents_def by (rule documents_loop_splitter_only)

text \<open>
  Claim C5. With \<open>chunk_size\<close> and \<open>chunk_overlap\<close> fixed, chunking the same documents
  twice gives the same chunk sequence: the same number of chunks, and chunk by chunk the
  same content and the same metadata. The two runs may use processors built from
  configurations that differ in every other field.
\<close>

theorem chunk_documents_deterministic:
  assumes "chunk_size c1 = chunk_size c2" and "chunk_overlap c1 = chunk_overlap c2"
  shows "chunk_documents split_text (DocumentProcessor_init c1) docs =
           chunk_documents split_text (DocumentProcessor_init c2) docs
     \<and> length (chunk_documents split_text (DocumentProcessor_init c1) docs) =
         length (chunk_documents split_text (DocumentProcessor_init c2) docs)
     \<and> (\<forall>i < length (chunk_documents split_text (DocumentProcessor_init c1) docs).
          page_content (chunk_documents split_text (DocumentProcessor_init c1) docs ! i) =
            page_content (chunk_documents split_text (DocumentProcessor_init c2) docs ! i)
          \<and> metadata (chunk_documents split_text (DocumentProcessor_init c1) docs ! i) =
            metadata (chunk_documents split_text (DocumentProcessor_init c2) docs ! i))"
proof -
  have "text_splitter (DocumentProcessor_init c1) = text_splitter (DocumentProcessor_init c2)"
    using assms by (simp add: DocumentProcessor_init_def)
  then have "chunk_documents split_text (DocumentProcessor_init c1) docs =
      chunk_documents split_text (DocumentProcessor_init c2) docs"
    by (rule chunk_documents_splitter_only)
  then show ?thesis by simp
qed

theorem chunk_documents_deterministic_witness:
  "chunk_size ((RAGConfig_default ''key-1'')\<lparr>chunk_size := 4\<rparr>) =
     chunk_size ((RAGConfig_default ''key-2'')\<lparr>chunk_size := 4, max_history_length := 9\<rparr>)
   \<and> chunk_documents char_split_text
        (DocumentProcessor_init ((RAGConfig_default ''key-1'')\<lparr>chunk_size := 4\<rparr>))
        [\<lparr>page_content = ''abcdef'', metadata = [''source'' \<mapsto> MStr ''a.md'']\<rparr>] =
      chunk_documents char_split_text
        (DocumentProcessor_init
          ((RAGConfig_default ''key-2'')\<lparr>chunk_size := 4, max_history_length := 9\<rparr>))
        [\<lparr>page_content = ''abcdef'', metadata = [''source'' \<mapsto> MStr ''a.md'']\<rparr>]
   \<and> length (chunk_documents char_split_text
        (DocumentProcessor_init ((RAGConfig_default ''key-1'')\<lparr>chunk_size := 4\<rparr>))
        [\<lparr>page_content = ''abcdef'', metadata = [''source'' \<mapsto> MStr ''a.md'']\<rparr>]) = 6"
proof -
  have h1: "chunk_size ((RAGConfig_default ''key-1'')\<lparr>chunk_size := 4\<rparr>) =
      chunk_size ((RAGConfig_default ''key-2'')\<lparr>chunk_size := 4, max_history_length := 9\<rparr>)"
    by simp
  have h2: "chunk_overlap ((RAGConfig_default ''key-1'')\<lparr>chunk_size := 4\<rparr>) =
      chunk_overlap ((RAGConfig_default ''key-2'')\<lparr>chunk_size := 4, max_history_length := 9\<rparr>)"
    by (simp add: RAGConfig_default_def)
  have len: "length (chunk_documents char_split_text
        (DocumentProcessor_init ((RAGConfig_default ''key-1'')\<lparr>chunk_size := 4\<rparr>))
        [\<lparr>page_content = ''abcdef'', metadata = [''source'' \<mapsto> MStr ''a.md'']\<rparr>]) = 6"
    by (simp add: chunk_documents_single_length DocumentProcessor_init_def char_split_text_def)
  from chunk_documents_deterministic [OF h1 h2, of char_split_text
      "[\<lparr>page_content = ''abcdef'', metadata = [''source'' \<mapsto> MStr ''a.md'']\<rparr>]"] h1 len
  show ?thesis by blast
qed

text \<open>
  Claim C6, as the code has it. Take a document whose content is shorter than
  \<open>chunk_size\<close>, under a configuration the splitter's constructor accepts. If something
  is left of the content after the white space around it is stripped, chunking yields
  exactly one chunk: its content is the stripped content, its \<open>chunk_index\<close> is 0 and
  its \<open>total_chunks\<close> is 1. If nothing is left (the content is empty or white space
  only), chunking yields no chunk. So the chunk has the document's content exactly when
  the content is not empty and has no white space around it.
\<close>

theorem short_document_chunks:
  assumes "int (length (page_content doc)) < chunk_size cfg"
    and "0 \<le> chunk_overlap cfg" and "chunk_overlap cfg \<le> chunk_size cfg"
  shows "(py_strip (page_content doc) \<noteq> [] \<longrightarrow>
            chunk_documents (library_split_text long_split) (DocumentProcessor_init cfg) [doc] =
              [\<lparr>page_content = py_strip (page_content doc),
                metadata = (metadata doc)
                  (''chunk_index'' \<mapsto> MInt 0, ''total_chunks'' \<mapsto> MInt 1)\<rparr>])
     \<and> (py_strip (page_content doc) = [] \<longrightarrow>
            chunk_documents (library_split_text long_split) (DocumentProcessor_init cfg) [doc] = [])
     \<and> (page_content doc \<noteq> [] \<and> py_strip (page_content doc) = page_content doc \<longrightarrow>
            chunk_documents (library_split_text long_split) (DocumentProcessor_init cfg) [doc] =
              [\<lparr>page_content = page_content doc,
                metadata = (metadata doc)
                  (''chunk_index'' \<mapsto> MInt 0, ''total_chunks'' \<mapsto> MInt 1)\<rparr>])"
proof -
  let ?self = "DocumentProcessor_init cfg"
  let ?chunks = "library_split_text long_split (text_splitter ?self) (page_content doc)"
  have short: "int (length (page_content doc)) < splitter_chunk_size (text_splitter ?self)"
    using assms(1) by (simp add: DocumentProcessor_init_def)
  have some: "chunk_documents (library_split_text long_split) ?self [doc] =
      [\<lparr>page_content = py_strip (page_content doc),
        metadata = (metadata doc)
          (''chunk_index'' \<mapsto> MInt 0, ''total_chunks'' \<mapsto> MInt 1)\<rparr>]"
    if left: "py_strip (page_content doc) \<noteq> []"
  proof -
    from short left have "?chunks = [py_strip (page_content doc)]"
      by (simp add: library_split_text_def)
    then have "chunk_documents (library_split_text long_split) ?self [doc] =
        [chunked_doc doc [py_strip (page_content doc)] 0 (py_strip (page_content doc))]"
      by (simp add: chunk_documents_single)
    then show ?thesis by (simp add: chunked_doc_def)
  qed
  have none: "chunk_documents (library_split_text long_split) ?self [doc] = []"
    if blank: "py_strip (page_content doc) = []"
  proof -
    from short blank have "?chunks = []"
      by (simp add: library_split_text_def)
    then show ?thesis by (simp add: chunk_documents_single)
  qed
  from some none show ?thesis by metis
qed

theorem short_document_chunks_witness:
  "chunk_documents (library_split_text char_split_text)
     (DocumentProcessor_init (RAGConfig_default ''key''))
     [\<lparr>page_content = ''hello'', metadata = [''source'' \<mapsto> MStr ''a.md'']\<rparr>] =
   [\<lparr>page_content = ''hello'',
     metadata = [''source'' \<mapsto> MStr ''a.md'', ''chunk_index'' \<mapsto> MInt 0,
                 ''total_chunks'' \<mapsto> MInt 1]\<rparr>]"
proof -
  let ?doc = "\<lparr>page_content = ''hello'', metadata = [''source'' \<mapsto> MStr ''a.md'']\<rparr>"
  have h1: "int (length (page_content ?doc)) < chunk_size (RAGConfig_default ''key'')"
    by (simp add: RAGConfig_default_def)
  have h2: "0 \<le> chunk_overlap (RAGConfig_default ''key'')"
    by (simp add: RAGConfig_default_def)
  have h3: "chunk_overlap (RAGConfig_default ''key'') \<le> chunk_size (RAGConfig_default ''key'')"
    by (simp add: RAGConfig_default_def)
  have stripped: "py_strip (page_content ?doc) = page_content ?doc"
    by (simp add: py_strip_def is_whitespace_def)
  have nonempty: "page_content ?doc \<noteq> []" by simp
  from short_document_chunks [OF h1 h2 h3, of char_split_text] stripped nonempty
  have "chunk_documents (library_split_text char_split_text)
      (DocumentProcessor_init (RAGConfig_default ''key'')) [?doc] =
      [\<lparr>page_content = page_content ?doc,
        metadata = (metadata ?doc)
          (''chunk_index'' \<mapsto> MInt 0, ''total_chunks'' \<mapsto> MInt 1)\<rparr>]"
    by blast
  then show ?thesis by simp
qed

theorem short_document_content_counterexample:
  "int (length (page_content \<lparr>page_content = [], metadata = Map.empty\<rparr>)) <
     chunk_size (RAGConfig_default ''key'')
   \<and> chunk_documents (library_split_text char_split_text)
       (DocumentProcessor_init (RAGConfig_default ''key''))
       [\<lparr>page_content = [], metadata = Map.empty\<rparr>] = []
   \<and> map page_content
       (chunk_documents (library_split_text char_split_text)
          (DocumentProcessor_init (RAGConfig_default ''key''))
          [\<lparr>page_content = '' hello '', metadata = Map.empty\<rparr>]) = [''hello'']"
  by (simp add: chunk_documents_single library_split_text_def py_strip_def is_whitespace_def
      DocumentProcessor_init_def RAGConfig_default_def chunked_doc_def)

text \<open>
  Claim C7, as the code has it. The chunks of the documents follow each other in the order
  of the documents, each document's chunks in one block. Within the block of a document,
  the chunk at position \<open>i\<close> holds the \<open>i\<close>-th piece of the splitter, its \<open>chunk_index\<close> is
  \<open>i\<close>, its \<open>total_chunks\<close> is the number of chunks of the document, and every other
  metadata key has the value the document gives it (the keys \<open>chunk_index\<close> and
  \<open>total_chunks\<close> of the document itself are replaced).
\<close>

theorem chunk_documents_layout:
  "chunk_documents split_text self [] = []
   \<and> chunk_documents split_text self (ds @ es) =
       chunk_documents split_text self ds @ chunk_documents split_text self es
   \<and> length (chunk_documents split_text self [doc]) =
       length (split_text (text_splitter self) (page_content doc))
   \<and> (\<forall>i < length (chunk_documents split_text self [doc]).
        page_content (chunk_documents split_text self [doc] ! i) =
          split_text (text_splitter self) (page_content doc) ! i
        \<and> metadata (chunk_documents split_text self [doc] ! i) ''chunk_index'' =
            Some (MInt (int i))
        \<and> metadata (chunk_documents split_text self [doc] ! i) ''total_chunks'' =
            Some (MInt (int (length (chunk_documents split_text self [doc]))))
        \<and> (\<forall>k. k \<noteq> ''chunk_index'' \<and> k \<noteq> ''total_chunks'' \<longrightarrow>
              metadata (chunk_documents split_text self [doc] ! i) k = metadata doc k))"
proof -
  let ?chunks = "split_text (text_splitter self) (page_content doc)"
  have len: "length (chunk_documents split_text self [doc]) = length ?chunks"
    by (rule chunk_documents_single_length)
  have each: "page_content (chunk_documents split_text self [doc] ! i) = ?chunks ! i
      \<and> metadata (chunk_documents split_text self [doc] ! i) ''chunk_index'' =
          Some (MInt (int i))
      \<and> metadata (chunk_documents split_text self [doc] ! i) ''total_chunks'' =
          Some (MInt (int (length (chunk_documents split_text self [doc]))))
      \<and> (\<forall>k. k \<noteq> ''chunk_index'' \<and> k \<noteq> ''total_chunks'' \<longrightarrow>
            metadata (chunk_documents split_text self [doc] ! i) k = metadata doc k)"
    if "i < length (chunk_documents split_text self [doc])" for i
  proof -
    from that len have "i < length ?chunks" by simp
    then have "chunk_documents split_text self [doc] ! i = chunked_doc doc ?chunks i (?chunks ! i)"
      by (rule chunk_documents_single_nth)
    then show ?thesis by (simp add: chunked_doc_def len)
  qed
  show ?thesis
    using chunk_documents_Nil [of split_text self] chunk_documents_append [of split_text self ds es]
      len each
    by blast
qed

theorem chunk_documents_layout_witness:
  "chunk_documents char_split_text
     (DocumentProcessor_init ((RAGConfig_default ''key'')\<lparr>chunk_size := 2\<rparr>))
     [\<lparr>page_content = ''abc'', metadata = [''source'' \<mapsto> MStr ''a.md'']\<rparr>] ! 1 =
     \<lparr>page_content = ''b'',
      metadata = [''source'' \<mapsto> MStr ''a.md'', ''chunk_index'' \<mapsto> MInt 1,
                  ''total_chunks'' \<mapsto> MInt 3]\<rparr>
   \<and> metadata (chunk_documents char_split_text
       (DocumentProcessor_init ((RAGConfig_default ''key'')\<lparr>chunk_size := 2\<rparr>))
       [\<lparr>page_content = ''abc'', metadata = [''source'' \<mapsto> MStr ''a.md'']\<rparr>] ! 1)
       ''chunk_index'' = Some (MInt 1)
   \<and> metadata (chunk_documents char_split_text
       (DocumentProcessor_init ((RAGConfig_default ''key'')\<lparr>chunk_size := 2\<rparr>))
       [\<lparr>page_content = ''abc'', metadata = [''source'' \<mapsto> MStr ''a.md'']\<rparr>] ! 1)
       ''source'' = Some (MStr ''a.md'')"
proof -
  let ?self = "DocumentProcessor_init ((RAGConfig_default ''key'')\<lparr>chunk_size := 2\<rparr>)"
  let ?doc = "\<lparr>page_content = ''abc'', metadata = [''source'' \<mapsto> MStr ''a.md'']\<rparr>"
  have split: "char_split_text (text_splitter ?self) ''abc'' = [''a'', ''b'', ''c'']"
    by (simp add: char_split_text_def DocumentProcessor_init_def)
  note layout = chunk_documents_layout [of char_split_text ?self "[]" "[]" ?doc]
  from layout have len: "length (chunk_documents char_split_text ?self [?doc]) = 3"
    by (simp add: split)
  have "1 < length (chunk_documents char_split_text ?self [?doc])"
    by (simp add: len)
  with layout have idx:
    "metadata (chunk_documents char_split_text ?self [?doc] ! 1) ''chunk_index'' = Some (MInt 1)"
    and src: "metadata (chunk_documents char_split_text ?self [?doc] ! 1) ''source'' =
      metadata ?doc ''source''"
    by auto
  have val: "chunk_documents char_split_text ?self [?doc] ! 1 =
      \<lparr>page_content = ''b'',
       metadata = [''source'' \<mapsto> MStr ''a.md'', ''chunk_index'' \<mapsto> MInt 1,
                   ''total_chunks'' \<mapsto> MInt 3]\<rparr>"
    by (simp add: chunk_documents_single split chunked_doc_def enumerate_eq_zip upt_rec)
  from val idx src show ?thesis by simp
qed

theorem chunk_metadata_replaced_counterexample:
  "metadata \<lparr>page_content = ''abc'', metadata = [''chunk_index'' \<mapsto> MInt 7]\<rparr> ''chunk_index'' =
     Some (MInt 7)
   \<and> metadata (chunk_documents char_split_text
        (DocumentProcessor_init (RAGConfig_default ''key''))
        [\<lparr>page_content = ''abc'', metadata = [''chunk_index'' \<mapsto> MInt 7]\<rparr>] ! 0)
        ''chunk_index'' = Some (MInt 0)"
  by (simp add: chunk_documents_single char_split_text_def DocumentProcessor_init_def
      RAGConfig_default_def chunked_doc_def)

subsection \<open>Similarity search\<close>

text \<open>
  Claim C3. When the store exists and the library's search returns a candidate list,
  \<open>similarity_search\<close> returns exactly the candidates whose score is at least
  \<open>similarity_threshold\<close>, in the order of the list; a list in descending score order
  stays in descending order. With the threshold 0.7 and the scores 0.9, 0.75, 0.4 the
  result is the first two candidates.
\<close>

theorem similarity_search_threshold:
  assumes "vectorstore self = Some store"
    and "similarity_search_with_score store q (k_or_default k (top_k_results (vs_config self))) =
           Inr results"
  shows "similarity_search similarity_search_with_score self q k =
           Inr (filter (\<lambda>c. snd c \<ge> similarity_threshold (vs_config self)) results)
     \<and> (\<exists>found. similarity_search similarity_search_with_score self q k = Inr found
           \<and> set found = {c \<in> set results. snd c \<ge> similarity_threshold (vs_config self)}
           \<and> (sorted_wrt (\<lambda>a b. snd a \<ge> snd b) results \<longrightarrow>
                sorted_wrt (\<lambda>a b. snd a \<ge> snd b) found))
     \<and> (similarity_threshold (vs_config self) = 7 / 10
           \<and> results = [(d1, 9 / 10), (d2, 75 / 100), (d3, 4 / 10)] \<longrightarrow>
         similarity_search similarity_search_with_score self q k =
           Inr [(d1, 9 / 10), (d2, 75 / 100)])"
proof -
  let ?keep = "\<lambda>c :: document \<times> real. snd c \<ge> similarity_threshold (vs_config self)"
  have same_filter: "(\<lambda>(doc, score). score \<ge> similarity_threshold (vs_config self)) = ?keep"
    by (simp add: fun_eq_iff)
  have res: "similarity_search similarity_search_with_score self q k = Inr (filter ?keep results)"
    using assms by (simp add: similarity_search_def Let_def same_filter)
  have sorted: "sorted_wrt (\<lambda>a b. snd a \<ge> snd b) results \<longrightarrow>
      sorted_wrt (\<lambda>a b. snd a \<ge> snd b) (filter ?keep results)"
    by (simp add: sorted_wrt_filter)
  have members: "set (filter ?keep results) = {c \<in> set results. ?keep c}"
    by simp
  have scenario: "similarity_threshold (vs_config self) = 7 / 10
      \<and> results = [(d1, 9 / 10), (d2, 75 / 100), (d3, 4 / 10)] \<longrightarrow>
      similarity_search similarity_search_with_score self q k =
        Inr [(d1, 9 / 10), (d2, 75 / 100)]"
    using res by simp
  from res sorted members scenario show ?thesis by blast
qed

theorem similarity_search_threshold_witness:
  "similarity_search
     (\<lambda>store q n. Inr (zip (take (nat n) (collection store)) [9 / 10, 75 / 100, 4 / 10]))
     \<lparr>vs_config = RAGConfig_default ''key'',
      vectorstore = Some \<lparr>collection =
        [\<lparr>page_content = ''a'', metadata = Map.empty\<rparr>,
         \<lparr>page_content = ''b'', metadata = Map.empty\<rparr>,
         \<lparr>page_content = ''c'', metadata = Map.empty\<rparr>]\<rparr>\<rparr>
     ''what is tdd'' None =
   Inr [(\<lparr>page_content = ''a'', metadata = Map.empty\<rparr>, 9 / 10),
        (\<lparr>page_content = ''b'', metadata = Map.empty\<rparr>, 75 / 100)]"
proof -
  let ?search = "\<lambda>store q n.
    Inr (zip (take (nat n) (collection store)) [9 / 10, 75 / 100, 4 / 10 :: real]) :: error + _"
  let ?store = "\<lparr>collection =
        [\<lparr>page_content = ''a'', metadata = Map.empty\<rparr>,
         \<lparr>page_content = ''b'', metadata = Map.empty\<rparr>,
         \<lparr>page_content = ''c'', metadata = Map.empty\<rparr>]\<rparr>"
  let ?self = "\<lparr>vs_config = RAGConfig_default ''key'', vectorstore = Some ?store\<rparr>"
  have h1: "vectorstore ?self = Some ?store" by simp
  have three: "nat 3 = Suc (Suc (Suc 0))" by simp
  have h2: "?search ?store ''what is tdd'' (k_or_default None (top_k_results (vs_config ?self))) =
      Inr [(\<lparr>page_content = ''a'', metadata = Map.empty\<rparr>, 9 / 10),
           (\<lparr>page_content = ''b'', metadata = Map.empty\<rparr>, 75 / 100),
           (\<lparr>page_content = ''c'', metadata = Map.empty\<rparr>, 4 / 10)]"
    by (simp add: k_or_default_def RAGConfig_default_def three)
  have thr: "similarity_threshold (vs_config ?self) = 7 / 10"
    by (simp add: RAGConfig_default_def)
  from similarity_search_threshold [of ?self ?store ?search "''what is tdd''" None, OF h1 h2] thr
  show ?thesis by simp
qed

subsection \<open>Sessions\<close>

lemma clear_session_eq:
  "clear_session p x = Inr (p\<lparr>conversation_memory := (conversation_memory p)(x := None)\<rparr>)"
proof (cases "conversation_memory p x")
  case None
  then have "(conversation_memory p)(x := None) = conversation_memory p" by (simp add: fun_upd_idem)
  with None show ?thesis by (simp add: clear_session_def dom_def)
next
  case (Some m)
  then show ?thesis by (simp add: clear_session_def dict_del_def dom_def)
qed

text \<open>
  Claim C8. \<open>clear_session\<close> never raises; afterwards the session has no state and every
  other session and field of the pipeline is as before. Clearing a session that does not
  exist changes nothing, and clearing twice is the same as clearing once.
\<close>

theorem clear_session_idempotent:
  "clear_session p x = Inr (p\<lparr>conversation_memory := (conversation_memory p)(x := None)\<rparr>)
   \<and> (case clear_session p x of Inl e \<Rightarrow> Inl e | Inr p' \<Rightarrow> clear_session p' x) =
       clear_session p x
   \<and> (conversation_memory p x = None \<longrightarrow> clear_session p x = Inr p)"
proof -
  have twice: "(case clear_session p x of Inl e \<Rightarrow> Inl e | Inr p' \<Rightarrow> clear_session p' x) =
      clear_session p x"
    by (simp add: clear_session_eq)
  have absent: "conversation_memory p x = None \<longrightarrow> clear_session p x = Inr p"
    by (simp add: clear_session_def dom_def)
  from clear_session_eq [of p x] twice absent show ?thesis by blast
qed

theorem clear_session_idempotent_witness:
  "conversation_memory (RAGPipeline_init (RAGConfig_default ''key'')) ''s1'' = None
   \<and> clear_session (RAGPipeline_init (RAGConfig_default ''key'')) ''s1'' =
       Inr (RAGPipeline_init (RAGConfig_default ''key''))
   \<and> clear_session (snd (get_or_create_memory (RAGPipeline_init (RAGConfig_default ''key'')) ''s1''))
        ''s1'' = Inr (RAGPipeline_init (RAGConfig_default ''key''))"
proof -
  let ?p = "RAGPipeline_init (RAGConfig_default ''key'')"
  have absent: "conversation_memory ?p ''s1'' = None"
    by (simp add: RAGPipeline_init_def)
  have created: "(snd (get_or_create_memory ?p ''s1''))
      \<lparr>conversation_memory :=
         (conversation_memory (snd (get_or_create_memory ?p ''s1'')))(''s1'' := None)\<rparr> = ?p"
    by (simp add: get_or_create_memory_def RAGPipeline_init_def Let_def)
  from clear_session_idempotent [of ?p "''s1''"] absent
  have first: "clear_session ?p ''s1'' = Inr ?p" by blast
  from clear_session_idempotent [of "snd (get_or_create_memory ?p ''s1'')" "''s1''"]
  have "clear_session (snd (get_or_create_memory ?p ''s1'')) ''s1'' =
      Inr ((snd (get_or_create_memory ?p ''s1''))
        \<lparr>conversation_memory :=
           (conversation_memory (snd (get_or_create_memory ?p ''s1'')))(''s1'' := None)\<rparr>)"
    by blast
  then have second: "clear_session (snd (get_or_create_memory ?p ''s1'')) ''s1'' = Inr ?p"
    by (simp only: created)
  from absent first second show ?thesis by blast
qed

text \<open>
  Claim C10. A query without a session id leaves the pipeline, and so its session store,
  as it was: no session is created and none is changed. The chain is called without
  memory, so the result is the same for a chain that never looks at a history.
\<close>

theorem query_without_session_keeps_store:
  "snd (query chain self q None) = self
   \<and> conversation_memory (snd (query chain self q None)) = conversation_memory self
   \<and> query chain self q None = query (\<lambda>store k history. chain store k None) self q None"
  by (simp add: query_def qa_chain_call_def Let_def split: option.splits sum.splits)

subsection \<open>Request validation\<close>

text \<open>
  Claim C9. A request whose question is empty or longer than 1000 characters is rejected
  with a validation error; the handler is not run, so the answer does not depend on the
  chain and the pipeline is as before. A question of 1 to 1000 characters passes the
  validation and the request reaches the handler.
\<close>

theorem question_length_validated:
  "(length (question body) = 0 \<or> length (question body) > 1000 \<longrightarrow>
      (\<exists>msg. QueryRequest_validate body = Inl (RequestValidationError msg)
         \<and> post_query chain now rag body = (Inl (RequestValidationError msg), rag))
      \<and> post_query chain now rag body = post_query chain' now rag body)
   \<and> (1 \<le> length (question body) \<and> length (question body) \<le> 1000 \<longrightarrow>
      QueryRequest_validate body = Inr body
      \<and> post_query chain now rag body = query_knowledge_base chain now rag body)"
  by (auto simp: QueryRequest_validate_def post_query_def)

theorem question_length_validated_witness:
  "post_query first_k_chain ''t'' (Some (RAGPipeline_init (RAGConfig_default ''key'')))
     \<lparr>question = [], session_id = None, include_sources = True\<rparr> =
     (Inl (RequestValidationError ''question: min_length 1''),
      Some (RAGPipeline_init (RAGConfig_default ''key'')))
   \<and> post_query first_k_chain ''t'' (Some (RAGPipeline_init (RAGConfig_default ''key'')))
     \<lparr>question = replicate 1001 CHR ''a'', session_id = None, include_sources = True\<rparr> =
     (Inl (RequestValidationError ''question: max_length 1000''),
      Some (RAGPipeline_init (RAGConfig_default ''key'')))
   \<and> QueryRequest_validate
     \<lparr>question = replicate 1000 CHR ''a'', session_id = None, include_sources = True\<rparr> =
     Inr \<lparr>question = replicate 1000 CHR ''a'', session_id = None, include_sources = True\<rparr>"
proof -
  let ?rag = "Some (RAGPipeline_init (RAGConfig_default ''key''))"
  let ?empty = "\<lparr>question = [], session_id = None, include_sources = True\<rparr>"
  let ?long = "\<lparr>question = replicate 1001 CHR ''a'', session_id = None, include_sources = True\<rparr>"
  let ?ok = "\<lparr>question = replicate 1000 CHR ''a'', session_id = None, include_sources = True\<rparr>"
  have v0: "QueryRequest_validate ?empty = Inl (RequestValidationError ''question: min_length 1'')"
    by (simp add: QueryRequest_validate_def)
  have v1: "QueryRequest_validate ?long = Inl (RequestValidationError ''question: max_length 1000'')"
    by (simp add: QueryRequest_validate_def)
  from question_length_validated [of ?empty first_k_chain "''t''" ?rag first_k_chain] v0
  have a: "post_query first_k_chain ''t'' ?rag ?empty =
      (Inl (RequestValidationError ''question: min_length 1''), ?rag)"
    by auto
  from question_length_validated [of ?long first_k_chain "''t''" ?rag first_k_chain] v1
  have b: "post_query first_k_chain ''t'' ?rag ?long =
      (Inl (RequestValidationError ''question: max_length 1000''), ?rag)"
    by auto
  from question_length_validated [of ?ok first_k_chain "''t''" ?rag first_k_chain]
  have c: "QueryRequest_validate ?ok = Inr ?ok"
    by simp
  from a b c show ?thesis by blast
qed

subsection \<open>Readiness of the store\<close>

lemma startup_event_loaded:
  "startup_event env_key None (Inr store) =
     Inr (Some \<lparr>config = RAGConfig_default env_key,
                vector_store =
                  \<lparr>vs_config = RAGConfig_default env_key, vectorstore = Some store\<rparr>,
                conversation_memory = Map.empty\<rparr>)"
  by (simp add: startup_event_def load_existing_def load_vectorstore_def RAGPipeline_init_def
      VectorStore_init_def)

lemma startup_event_not_loaded:
  "startup_event env_key None (Inl e) =
     Inr (Some (RAGPipeline_init (RAGConfig_default env_key)))"
  by (simp add: startup_event_def load_existing_def load_vectorstore_def)

lemma get_or_create_memory_vector_store:
  "vector_store (snd (get_or_create_memory p s)) = vector_store p"
  by (simp add: get_or_create_memory_def Let_def split: option.splits)

lemma query_without_store:
  assumes "vectorstore (vector_store p) = None"
  shows "fst (query chain p q sid) =
    Inl (none_attribute_error ''as_retriever'')"
proof -
  have "vectorstore (vector_store (snd (get_or_create_memory p s))) = None" for s
    using assms by (simp add: get_or_create_memory_vector_store)
  with assms show ?thesis
    by (simp add: query_def Let_def split_def split: option.splits)
qed

text \<open>
  While the pipeline has no store object, a valid request is answered 503, ``not
  ready'', and the query is not run: the answer is the same for every chain and the
  pipeline is unchanged.
\<close>

lemma no_store_not_ready:
  assumes "vectorstore (vector_store p) = None"
    and "QueryRequest_validate body = Inr body"
  shows "post_query chain now (Some p) body =
    (Inl (HTTPException 503 ''Vector store not ready. Please ingest documents first.''),
     Some p)"
  using assms by (simp add: post_query_def query_knowledge_base_def)

text \<open>
  A store object that exists is never reported as not ready, whatever it holds: the
  handler answers with the result of the query or with the response 500.
\<close>

lemma existing_store_not_checked:
  assumes "vectorstore (vector_store p) = Some store"
  shows "fst (query_knowledge_base chain now (Some p) request) \<noteq>
    Inl (HTTPException 503 ''Vector store not ready. Please ingest documents first.'')"
  using assms by (simp add: query_knowledge_base_def split: prod.splits sum.splits)

text \<open>
  Claim C4 on the code. The service starts where a collection exists and holds no
  document: \<open>load_existing\<close> succeeds and the pipeline has a store object. A query sent
  before any ingestion passes the readiness test of the handler, the chain runs on the
  empty store, and the request is answered with a result that has no sources and the
  confidence 0.0. It is not answered ``not ready''.
\<close>

theorem empty_store_query_succeeds:
  "startup_event ''key'' None (Inr \<lparr>collection = []\<rparr>) =
     Inr (Some \<lparr>config = RAGConfig_default ''key'',
                vector_store =
                  \<lparr>vs_config = RAGConfig_default ''key'',
                   vectorstore = Some \<lparr>collection = []\<rparr>\<rparr>,
                conversation_memory = Map.empty\<rparr>)
   \<and> fst (post_query first_k_chain ''t''
        (Some \<lparr>config = RAGConfig_default ''key'',
               vector_store =
                 \<lparr>vs_config = RAGConfig_default ''key'',
                  vectorstore = Some \<lparr>collection = []\<rparr>\<rparr>,
               conversation_memory = Map.empty\<rparr>)
        \<lparr>question = ''What is TDD?'', session_id = Some ''s1'', include_sources = True\<rparr>) =
     Inr \<lparr>response_answer = ''answer to What is TDD?'',
          response_sources = [],
          response_confidence = 0,
          response_session_id = Some ''s1'',
          timestamp = ''t''\<rparr>"
  by (simp add: startup_event_loaded post_query_def QueryRequest_validate_def
      query_knowledge_base_def query_def qa_chain_call_def get_or_create_memory_def
      first_k_chain_def calculate_confidence_def Let_def)

subsection \<open>Growth of a session's history\<close>

lemma query_first_k_chain_step:
  assumes "s \<noteq> []" and "vectorstore (vector_store p) = Some store"
  shows "session_history (snd (query first_k_chain p q (Some s))) s =
           session_history p s @ [(q, ''answer to '' @ q)]
     \<and> vectorstore (vector_store (snd (query first_k_chain p q (Some s)))) = Some store"
proof (cases "conversation_memory p s")
  case None
  with assms show ?thesis
    by (simp add: query_def qa_chain_call_def get_or_create_memory_def first_k_chain_def
        save_context_def session_history_def Let_def)
next
  case (Some m)
  with assms show ?thesis
    by (simp add: query_def qa_chain_call_def get_or_create_memory_def first_k_chain_def
        save_context_def session_history_def Let_def)
qed

lemma query_all_history:
  assumes "s \<noteq> []"
  shows "vectorstore (vector_store p) = Some store \<Longrightarrow>
    session_history (query_all first_k_chain p (Some s) questions) s =
      session_history p s @ map (\<lambda>q. (q, ''answer to '' @ q)) questions"
proof (induction questions arbitrary: p)
  case Nil
  show ?case by simp
next
  case (Cons q questions)
  note step = query_first_k_chain_step [OF assms Cons.prems, of q]
  from step have store': "vectorstore (vector_store (snd (query first_k_chain p q (Some s)))) =
      Some store"
    by simp
  from Cons.IH [OF store'] step show ?case by simp
qed

lemma query_ignores_max_history_length:
  "fst (query chain (self\<lparr>config := (config self)\<lparr>max_history_length := n\<rparr>\<rparr>) q sid) =
     fst (query chain self q sid)
   \<and> conversation_memory
        (snd (query chain (self\<lparr>config := (config self)\<lparr>max_history_length := n\<rparr>\<rparr>) q sid)) =
      conversation_memory (snd (query chain self q sid))"
  by (simp add: query_def qa_chain_call_def get_or_create_memory_def Let_def split_def
      split: option.splits sum.splits)

text \<open>
  Claim C2 on the code. With the default configuration, \<open>max_history_length\<close> is 5; after
  six queries on the session \<open>s1\<close> the history of the session holds all six turns, the
  oldest first. No turn is evicted: \<open>max_history_length\<close> is not read by the pipeline.
\<close>

theorem history_exceeds_max_history_length:
  "max_history_length (config (RAGPipeline_init (RAGConfig_default ''key''))) = 5
   \<and> session_history
       (query_all first_k_chain
          ((RAGPipeline_init (RAGConfig_default ''key''))
             \<lparr>vector_store :=
                \<lparr>vs_config = RAGConfig_default ''key'',
                 vectorstore = Some \<lparr>collection = []\<rparr>\<rparr>\<rparr>)
          (Some ''s1'') [''q1'', ''q2'', ''q3'', ''q4'', ''q5'', ''q6''])
       ''s1'' =
     [(''q1'', ''answer to q1''), (''q2'', ''answer to q2''), (''q3'', ''answer to q3''),
      (''q4'', ''answer to q4''), (''q5'', ''answer to q5''), (''q6'', ''answer to q6'')]"
proof -
  let ?p = "(RAGPipeline_init (RAGConfig_default ''key''))
     \<lparr>vector_store :=
        \<lparr>vs_config = RAGConfig_default ''key'', vectorstore = Some \<lparr>collection = []\<rparr>\<rparr>\<rparr>"
  have sid: "''s1'' \<noteq> []" by simp
  have store: "vectorstore (vector_store ?p) = Some \<lparr>collection = []\<rparr>" by simp
  have start: "session_history ?p ''s1'' = []"
    by (simp add: session_history_def RAGPipeline_init_def)
  have max: "max_history_length (config (RAGPipeline_init (RAGConfig_default ''key''))) = 5"
    by (simp add: RAGPipeline_init_def RAGConfig_default_def)
  from query_all_history [OF sid store, of "[''q1'', ''q2'', ''q3'', ''q4'', ''q5'', ''q6'']"]
    start max
  show ?thesis by simp
qed

end
